theory Spec2Isabelle
  imports Complex_Main "HOL-Library.AList"
begin

section \<open>JavaScript numbers\<close>

text \<open>
  A JavaScript number is \<open>NaN\<close>, one of the two infinities, or a finite value. Finite values
  are modelled by the real they denote; the rounding of IEEE doubles is not modelled.
\<close>

datatype jsnum = NaN | PosInf | NegInf | Fin real

fun jsAdd :: "jsnum \<Rightarrow> jsnum \<Rightarrow> jsnum" where
  "jsAdd NaN _ = NaN"
| "jsAdd _ NaN = NaN"
| "jsAdd PosInf NegInf = NaN"
| "jsAdd NegInf PosInf = NaN"
| "jsAdd PosInf _ = PosInf"
| "jsAdd _ PosInf = PosInf"
| "jsAdd NegInf _ = NegInf"
| "jsAdd _ NegInf = NegInf"
| "jsAdd (Fin x) (Fin y) = Fin (x + y)"

fun jsNegate :: "jsnum \<Rightarrow> jsnum" where
  "jsNegate NaN = NaN"
| "jsNegate PosInf = NegInf"
| "jsNegate NegInf = PosInf"
| "jsNegate (Fin x) = Fin (- x)"

definition jsSub :: "jsnum \<Rightarrow> jsnum \<Rightarrow> jsnum" where
  "jsSub x y = jsAdd x (jsNegate y)"

text \<open>The sign of a number: \<open>Some True\<close> positive, \<open>Some False\<close> negative, \<open>None\<close> zero or NaN.\<close>

fun jsSign :: "jsnum \<Rightarrow> bool option" where
  "jsSign NaN = None"
| "jsSign PosInf = Some True"
| "jsSign NegInf = Some False"
| "jsSign (Fin x) = (if x = 0 then None else Some (0 < x))"

fun jsInf :: "bool \<Rightarrow> jsnum" where
  "jsInf True = PosInf"
| "jsInf False = NegInf"

fun jsMul :: "jsnum \<Rightarrow> jsnum \<Rightarrow> jsnum" where
  "jsMul NaN _ = NaN"
| "jsMul _ NaN = NaN"
| "jsMul (Fin x) (Fin y) = Fin (x * y)"
| "jsMul x y =
     (case (jsSign x, jsSign y) of
        (Some a, Some b) \<Rightarrow> jsInf (a = b)
      | _ \<Rightarrow> NaN)"

fun jsDiv :: "jsnum \<Rightarrow> jsnum \<Rightarrow> jsnum" where
  "jsDiv NaN _ = NaN"
| "jsDiv _ NaN = NaN"
| "jsDiv (Fin x) (Fin y) =
     (if y = 0 then (if x = 0 then NaN else jsInf (0 < x)) else Fin (x / y))"
| "jsDiv (Fin x) _ = Fin 0"
| "jsDiv x (Fin y) = (case jsSign x of Some a \<Rightarrow> jsInf (a = (0 \<le> y)) | None \<Rightarrow> NaN)"
| "jsDiv _ _ = NaN"

fun jsSqrt :: "jsnum \<Rightarrow> jsnum" where
  "jsSqrt NaN = NaN"
| "jsSqrt PosInf = PosInf"
| "jsSqrt NegInf = NaN"
| "jsSqrt (Fin x) = (if x < 0 then NaN else Fin (sqrt x))"

text \<open>Truthiness of a number (\<open>x ? .. : ..\<close>, \<open>x && ..\<close>, \<open>x || ..\<close>): false for 0 and NaN.\<close>

fun truthy :: "jsnum \<Rightarrow> bool" where
  "truthy NaN = False"
| "truthy (Fin x) = (x \<noteq> 0)"
| "truthy _ = True"

text \<open>\<open>x < 0\<close>, as the sort of an array reads the result of its comparator.\<close>

fun jsNegative :: "jsnum \<Rightarrow> bool" where
  "jsNegative NegInf = True"
| "jsNegative (Fin x) = (x < 0)"
| "jsNegative _ = False"


section \<open>Arrays\<close>

text \<open>
  \<open>Array.prototype.sort(cmp)\<close> is stable. It is modelled by the stable insertion sort
  driven by \<open>lt a b\<close>, which stands for \<open>cmp(a, b) < 0\<close>: an element is placed after
  the elements that compare strictly before it and before all others.
\<close>

fun jsInsert :: "('a \<Rightarrow> 'a \<Rightarrow> bool) \<Rightarrow> 'a \<Rightarrow> 'a list \<Rightarrow> 'a list" where
  "jsInsert lt x [] = [x]"
| "jsInsert lt x (y # ys) = (if lt y x then y # jsInsert lt x ys else x # y # ys)"

definition jsSort :: "('a \<Rightarrow> 'a \<Rightarrow> bool) \<Rightarrow> 'a list \<Rightarrow> 'a list" where
  "jsSort lt xs = foldr (jsInsert lt) xs []"

text \<open>\<open>xs.slice(0, e)\<close> for an integer \<open>e\<close>: a negative end counts from the end of the array.\<close>

definition slice0 :: "'a list \<Rightarrow> int \<Rightarrow> 'a list" where
  "slice0 xs e =
     (let len = int (length xs);
          final = (if e < 0 then max (len + e) 0 else min e len)
      in take (nat final) xs)"

section \<open>Strings\<close>

text \<open>
  Strings are lists of 8-bit characters, so the model covers the Latin-1 part of
  JavaScript's strings.
\<close>

definition isDigit :: "char \<Rightarrow> bool" where
  "isDigit c = (c \<in> set ''0123456789'')"

definition isHexDigit :: "char \<Rightarrow> bool" where
  "isHexDigit c = (c \<in> set ''0123456789abcdefABCDEF'')"

definition isWordChar :: "char \<Rightarrow> bool" where
  \<comment> \<open>the class \<open>\w\<close> of a regular expression\<close>
  "isWordChar c =
     (c \<in> set ''abcdefghijklmnopqrstuvwxyzABCDEFGHIJKLMNOPQRSTUVWXYZ0123456789_'')"

definition isWhiteSpace :: "char \<Rightarrow> bool" where
  \<comment> \<open>white space and line terminators: TAB, LF, VT, FF, CR, SP, NBSP\<close>
  "isWhiteSpace c = ((of_char c :: int) \<in> set [9, 10, 11, 12, 13, 32, 160])"

definition trim :: "string \<Rightarrow> string" where
  "trim s = rev (dropWhile isWhiteSpace (rev (dropWhile isWhiteSpace s)))"

definition toLowerChar :: "char \<Rightarrow> char" where
  "toLowerChar c =
     (let n = (of_char c :: int)
      in if (65 \<le> n \<and> n \<le> 90) \<or> (192 \<le> n \<and> n \<le> 222 \<and> n \<noteq> 215)
         then char_of (n + 32) else c)"

definition toLowerCase :: "string \<Rightarrow> string" where
  "toLowerCase s = map toLowerChar s"

text \<open>
  \<open>s.split(/\W+/)\<close>: the pieces between the maximal runs of non-word characters. A run at
  the start or at the end of the string leaves an empty piece there, and the empty string
  splits into one empty piece. \<open>inSep\<close> tells that the walk is inside a run.
\<close>

fun splitWalk :: "bool \<Rightarrow> string \<Rightarrow> string \<Rightarrow> string list" where
  "splitWalk inSep cur [] = [cur]"
| "splitWalk inSep cur (c # cs) =
     (if isWordChar c then splitWalk False (cur @ [c]) cs
      else if inSep then splitWalk True cur cs
      else cur # splitWalk True [] cs)"

definition splitNonWord :: "string \<Rightarrow> string list" where
  "splitNonWord s = splitWalk False [] s"

definition digitVal :: "char \<Rightarrow> int" where
  "digitVal c =
     (let n = (of_char c :: int)
      in if 48 \<le> n \<and> n \<le> 57 then n - 48
         else if 97 \<le> n \<and> n \<le> 102 then n - 87
         else n - 55)"

definition digitsVal :: "int \<Rightarrow> string \<Rightarrow> int" where
  "digitsVal base ds = foldl (\<lambda>acc c. acc * base + digitVal c) 0 ds"

definition digitChar :: "nat \<Rightarrow> char" where
  "digitChar d = char_of (48 + d)"

fun showNat :: "nat \<Rightarrow> string" where
  "showNat n = (if n < 10 then [digitChar n] else showNat (n div 10) @ [digitChar (n mod 10)])"

definition showInt :: "int \<Rightarrow> string" where
  "showInt i = (if i < 0 then CHR ''-'' # showNat (nat (- i)) else showNat (nat i))"

section \<open>Conversion of a string to a number\<close>

text \<open>
  \<open>Number(s)\<close> for a string: white space is trimmed; the empty string is 0; then the string
  must be a whole numeric literal, else the result is NaN. The value is the exact value of
  the literal.
\<close>

definition stripSign :: "string \<Rightarrow> bool \<times> string" where
  \<comment> \<open>the flag tells a leading minus\<close>
  "stripSign s =
     (case s of
        c # cs \<Rightarrow> if c = CHR ''-'' then (True, cs) else if c = CHR ''+'' then (False, cs) else (False, s)
      | [] \<Rightarrow> (False, s))"

definition radixLiteral :: "int \<Rightarrow> (char \<Rightarrow> bool) \<Rightarrow> string \<Rightarrow> jsnum" where
  "radixLiteral base ok ds =
     (if ds \<noteq> [] \<and> list_all ok ds then Fin (of_int (digitsVal base ds)) else NaN)"

definition scaleExp :: "real \<Rightarrow> bool \<Rightarrow> int \<Rightarrow> real" where
  "scaleExp x neg e = (if neg then x / 10 ^ nat e else x * 10 ^ nat e)"

definition decimalLiteral :: "string \<Rightarrow> jsnum" where
  "decimalLiteral s =
     (let (neg, body) = stripSign s
      in if body = ''Infinity'' then (if neg then NegInf else PosInf)
         else
           let ip = takeWhile isDigit body;
               r1 = dropWhile isDigit body;
               dot = (r1 \<noteq> [] \<and> hd r1 = CHR ''.'');
               fp = (if dot then takeWhile isDigit (tl r1) else []);
               r2 = (if dot then dropWhile isDigit (tl r1) else r1);
               mant = of_int (digitsVal 10 ip) + of_int (digitsVal 10 fp) / 10 ^ length fp;
               sgn = (if neg then - 1 else 1)
           in if ip = [] \<and> fp = [] then NaN
              else if r2 = [] then Fin (sgn * mant)
              else if hd r2 = CHR ''e'' \<or> hd r2 = CHR ''E'' then
                let (eneg, ds) = stripSign (tl r2)
                in if ds \<noteq> [] \<and> list_all isDigit ds
                   then Fin (sgn * scaleExp mant eneg (digitsVal 10 ds))
                   else NaN
              else NaN)"

definition stringToNumber :: "string \<Rightarrow> jsnum" where
  "stringToNumber s0 =
     (let s = trim s0
      in if s = [] then Fin 0
         else if take 2 s = ''0x'' \<or> take 2 s = ''0X'' then radixLiteral 16 isHexDigit (drop 2 s)
         else if take 2 s = ''0o'' \<or> take 2 s = ''0O'' then
           radixLiteral 8 (\<lambda>c. c \<in> set ''01234567'') (drop 2 s)
         else if take 2 s = ''0b'' \<or> take 2 s = ''0B'' then
           radixLiteral 2 (\<lambda>c. c \<in> set ''01'') (drop 2 s)
         else decimalLiteral s)"

section \<open>Values and objects\<close>

text \<open>
  The values a record holds: \<open>null\<close>, \<open>undefined\<close> (also what reading an absent field
  gives), booleans, integral numbers and strings. Equality of these values is the
  equality a \<open>Set\<close> uses: the number 1 and the text \<open>1\<close> differ, and so do \<open>null\<close>,
  \<open>undefined\<close> and the empty string.
\<close>

datatype jsval = JNull | JUndefined | JBool bool | JNum int | JStr string

fun toNumber :: "jsval \<Rightarrow> jsnum" where
  "toNumber JNull = Fin 0"
| "toNumber JUndefined = NaN"
| "toNumber (JBool b) = Fin (if b then 1 else 0)"
| "toNumber (JNum n) = Fin (of_int n)"
| "toNumber (JStr s) = stringToNumber s"

text \<open>The text of a value when it is used as a property key (\<open>acc[value]\<close>).\<close>

fun propertyKey :: "jsval \<Rightarrow> string" where
  "propertyKey JNull = ''null''"
| "propertyKey JUndefined = ''undefined''"
| "propertyKey (JBool b) = (if b then ''true'' else ''false'')"
| "propertyKey (JNum n) = showInt n"
| "propertyKey (JStr s) = s"

text \<open>
  An object is the list of its own properties in the order \<open>Object.keys\<close> gives them.
  Properties inherited from \<open>Object.prototype\<close> are not part of the model.
\<close>

type_synonym 'v jsobj = "(string \<times> 'v) list"

definition objectKeys :: "'v jsobj \<Rightarrow> string list" where
  "objectKeys obj = map fst obj"

definition getProp :: "jsval jsobj \<Rightarrow> string \<Rightarrow> jsval" where
  \<comment> \<open>\<open>row[field]\<close>\<close>
  "getProp row field = (case map_of row field of Some v \<Rightarrow> v | None \<Rightarrow> JUndefined)"

text \<open>
  The objects the code builds start empty and grow by assignment: \<open>AList.update\<close> keeps the
  place of a key that is there and appends a new one. \<open>Object.entries\<close> lists the keys that
  are array indices first, in ascending numeric order, then the others in creation order.
\<close>

definition isArrayIndex :: "string \<Rightarrow> bool" where
  "isArrayIndex k =
     (k \<noteq> [] \<and> length k \<le> 10 \<and> list_all isDigit k \<and> (k = ''0'' \<or> hd k \<noteq> CHR ''0'')
      \<and> digitsVal 10 k < 4294967295)"

definition objectEntries :: "'v jsobj \<Rightarrow> (string \<times> 'v) list" where
  "objectEntries obj =
     sort_key (\<lambda>(k, v). digitsVal 10 k) (filter (\<lambda>(k, v). isArrayIndex k) obj)
     @ filter (\<lambda>(k, v). \<not> isArrayIndex k) obj"

section \<open>Cosine similarity\<close>

text \<open>
  \<open>a.reduce((sum, ai, i) => sum + ai * b[i], 0)\<close>: the walk over \<open>a\<close> reads \<open>b\<close> at the
  same index; past the end of \<open>b\<close> the read is \<open>undefined\<close> and the product is NaN.
\<close>

fun dotFrom :: "jsnum \<Rightarrow> real list \<Rightarrow> real list \<Rightarrow> jsnum" where
  "dotFrom s [] b = s"
| "dotFrom s (ai # a) [] = dotFrom (jsAdd s NaN) a []"
| "dotFrom s (ai # a) (bi # b) = dotFrom (jsAdd s (jsMul (Fin ai) (Fin bi))) a b"

definition sumSquares :: "real list \<Rightarrow> jsnum" where
  "sumSquares a = foldl (\<lambda>s ai. jsAdd s (jsMul (Fin ai) (Fin ai))) (Fin 0) a"

definition vecNorm :: "real list \<Rightarrow> jsnum" where
  "vecNorm a = jsSqrt (sumSquares a)"

text \<open>The divisor of the division in \<open>cosineSimilarity\<close>, when the division is performed.\<close>

definition cosineDivisor :: "real list \<Rightarrow> real list \<Rightarrow> jsnum option" where
  "cosineDivisor a b =
     (let normA = vecNorm a; normB = vecNorm b
      in if truthy normA \<and> truthy normB then Some (jsMul normA normB) else None)"

definition cosineSimilarity :: "real list \<Rightarrow> real list \<Rightarrow> jsnum" where
  "cosineSimilarity a b =
     (let dot = dotFrom (Fin 0) a b
      in case cosineDivisor a b of
           Some d \<Rightarrow> jsDiv dot d
         | None \<Rightarrow> Fin 0)"

section \<open>Vectorizer and ranker\<close>

definition vectorize :: "string \<Rightarrow> string list \<Rightarrow> real list" where
  "vectorize text vocabulary =
     (let tokens = splitNonWord (toLowerCase text)
      in map (\<lambda>word. real (length (filter (\<lambda>t. t = word) tokens))) vocabulary)"

record 'r scored =
  row :: "'r option"
  score :: jsnum

text \<open>\<open>dataRows[i]\<close> is \<open>undefined\<close> (here \<open>None\<close>) past the end of \<open>dataRows\<close>.\<close>

definition nthOpt :: "'a list \<Rightarrow> nat \<Rightarrow> 'a option" where
  "nthOpt xs i = (if i < length xs then Some (xs ! i) else None)"

definition scoredRows :: "string \<Rightarrow> 'r list \<Rightarrow> real list list \<Rightarrow> string list \<Rightarrow> 'r scored list" where
  "scoredRows query dataRows vectors vocabulary =
     (let queryVec = vectorize query vocabulary
      in map (\<lambda>(vec, i). \<lparr>row = nthOpt dataRows i, score = cosineSimilarity queryVec vec\<rparr>)
           (zip vectors [0..<length vectors]))"

definition byScoreDesc :: "'r scored \<Rightarrow> 'r scored \<Rightarrow> bool" where
  \<comment> \<open>the comparator \<open>(a, b) => b.score - a.score\<close> is negative\<close>
  "byScoreDesc a b = jsNegative (jsSub (score b) (score a))"

definition vectorSearch ::
  "string \<Rightarrow> 'r list \<Rightarrow> real list list \<Rightarrow> string list \<Rightarrow> int \<Rightarrow> 'r scored list" where
  "vectorSearch query dataRows vectors vocabulary topN =
     slice0 (jsSort byScoreDesc (scoredRows query dataRows vectors vocabulary)) topN"

section \<open>Dataset profile\<close>

record summary_info =
  totalRecords :: nat
  uniqueValues :: nat
  missingValues :: nat
  dataTypes :: "nat jsobj"

text \<open>A chart series; its field \<open>values\<close> in the source is \<open>vals\<close> here.\<close>

record 'v series =
  labels :: "string list"
  vals :: "'v list"

record analysisData =
  summary :: summary_info
  trends :: "jsnum series"
  distribution :: "nat series"
  correlations :: "(string \<times> string \<times> jsnum) list"

definition nonNull :: "jsval \<Rightarrow> bool" where
  \<comment> \<open>\<open>v != null && v !== ''\<close>; the loose \<open>!=\<close> also rejects \<open>undefined\<close>\<close>
  "nonNull v = (v \<noteq> JNull \<and> v \<noteq> JUndefined \<and> v \<noteq> JStr [])"

definition isNumeric :: "jsval \<Rightarrow> bool" where
  \<comment> \<open>\<open>!isNaN(Number(v))\<close>\<close>
  "isNumeric v = (toNumber v \<noteq> NaN)"

definition column :: "jsval jsobj list \<Rightarrow> string \<Rightarrow> jsval list" where
  \<comment> \<open>\<open>data.map(row => row[field])\<close>\<close>
  "column data field = map (\<lambda>row. getProp row field) data"

definition setSize :: "'a list \<Rightarrow> nat" where
  \<comment> \<open>\<open>new Set(xs).size\<close>\<close>
  "setSize xs = length (remdups xs)"

text \<open>
  The body of the loop over the fields. The products \<open>n * 0.8\<close> and \<open>n * 0.5\<close> of the
  source are doubles; for a length \<open>n\<close> below \<open>2^50\<close> the comparison of an integer with
  the rounded product has the outcome of the exact comparison, which is what is written
  here. The list of field names, \<open>fields\<close> in the source, is \<open>flds\<close> below.
\<close>

definition analyzeField :: "jsval jsobj list \<Rightarrow> summary_info \<Rightarrow> string \<Rightarrow> summary_info" where
  "analyzeField data s field =
     (let values = column data field;
          nonNullValues = filter nonNull values;
          numberValues = filter isNumeric nonNullValues;
          s1 = (if real (length numberValues) > real (length nonNullValues) * 0.8
                then s\<lparr>dataTypes := AList.update field (length numberValues) (dataTypes s)\<rparr>
                else s\<lparr>uniqueValues := uniqueValues s + setSize nonNullValues\<rparr>)
      in s1\<lparr>missingValues := missingValues s1 + (length values - length nonNullValues)\<rparr>)"

text \<open>A found field name is tested for truthiness: the empty name counts as not found.\<close>

fun truthyName :: "string option \<Rightarrow> bool" where
  "truthyName None = False"
| "truthyName (Some f) = (f \<noteq> [])"

definition orZero :: "jsnum \<Rightarrow> jsnum" where
  \<comment> \<open>\<open>x || 0\<close>\<close>
  "orZero x = (if truthy x then x else Fin 0)"

definition trendLabels :: "jsval jsobj list \<Rightarrow> string list" where
  "trendLabels data =
     map (\<lambda>i. ''Data Point '' @ showNat (i + 1)) [0..<length (take 10 data)]"

definition numericField :: "jsval jsobj list \<Rightarrow> string list \<Rightarrow> string option" where
  "numericField data flds = find (\<lambda>field. list_ex isNumeric (column data field)) flds"

text \<open>\<open>rand i\<close> is the result of the \<open>i\<close>-th call of \<open>Math.random()\<close>, a number in \<open>[0, 1)\<close>.\<close>

definition trendValues :: "(nat \<Rightarrow> real) \<Rightarrow> jsval jsobj list \<Rightarrow> string list \<Rightarrow> jsnum list" where
  "trendValues rand data flds =
     (let nf = numericField data flds
      in if truthyName nf
         then map (\<lambda>row. orZero (toNumber (getProp row (the nf)))) (take 10 data)
         else map (\<lambda>i. Fin (rand i * 100)) [0..<10])"

definition categoricalField :: "jsval jsobj list \<Rightarrow> string list \<Rightarrow> string option" where
  "categoricalField data flds =
     find (\<lambda>field.
             let uniqueValues = setSize (column data field)
             in real uniqueValues < real (length data) * 0.5 \<and> uniqueValues > 1)
          flds"

definition countStep :: "string \<Rightarrow> nat jsobj \<Rightarrow> jsval jsobj \<Rightarrow> nat jsobj" where
  \<comment> \<open>\<open>acc[value] = (acc[value] || 0) + 1\<close>\<close>
  "countStep field acc r =
     (let key = propertyKey (getProp r field)
      in AList.update key ((case map_of acc key of Some c \<Rightarrow> c | None \<Rightarrow> 0) + 1) acc)"

definition countValues :: "jsval jsobj list \<Rightarrow> string \<Rightarrow> nat jsobj" where
  "countValues data field = foldl (countStep field) [] data"

definition byCountDesc :: "string \<times> nat \<Rightarrow> string \<times> nat \<Rightarrow> bool" where
  \<comment> \<open>the comparator \<open>([, a], [, b]) => b - a\<close> is negative\<close>
  "byCountDesc x y = (int (snd y) - int (snd x) < 0)"

definition distributionData :: "jsval jsobj list \<Rightarrow> string list \<Rightarrow> nat series" where
  "distributionData data flds =
     (let cf = categoricalField data flds
      in if truthyName cf
         then
           let counts = countValues data (the cf);
               sortedEntries = jsSort byCountDesc (objectEntries counts);
               topEntries = take 8 sortedEntries
           in \<lparr>labels = map fst topEntries, vals = map snd topEntries\<rparr>
         else \<lparr>labels = [''Category A'', ''Category B'', ''Category C''], vals = [30, 45, 25]\<rparr>)"

definition analyzeFrontendData :: "(nat \<Rightarrow> real) \<Rightarrow> jsval jsobj list \<Rightarrow> analysisData" where
  "analyzeFrontendData rand data =
     (if length data = 0
      then \<lparr>summary = \<lparr>totalRecords = 0, uniqueValues = 0, missingValues = 0, dataTypes = []\<rparr>,
            trends = \<lparr>labels = [], vals = []\<rparr>,
            distribution = \<lparr>labels = [], vals = []\<rparr>,
            correlations = []\<rparr>
      else
        let flds = objectKeys (hd data);
            summary0 = \<lparr>totalRecords = length data, uniqueValues = 0, missingValues = 0,
                        dataTypes = []\<rparr>
        in \<lparr>summary = foldl (analyzeField data) summary0 flds,
            trends = \<lparr>labels = trendLabels data, vals = trendValues rand data flds\<rparr>,
            distribution = distributionData data flds,
            correlations = []\<rparr>)"

section \<open>Chat query handler\<close>

record chatMessage =
  content :: string
  isUser :: bool
  sources :: "string list"

text \<open>
  The body of a successful response: an object with an optional \<open>ai_response\<close> and a flag
  telling that \<open>vector_results\<close> is present, or an array of results, each with an optional
  \<open>text\<close>. A call that times out, fails on the network or is answered outside 2xx is
  rejected.
\<close>

datatype responseData = ObjectBody "string option" bool | ArrayBody "string option list"

datatype failure = Timeout | NetworkError | BadStatus nat

datatype remoteResult = Rejected failure | Resolved responseData

record chatState =
  messages :: "chatMessage list"
  inputValue :: string
  isTyping :: bool

fun joinWith :: "string \<Rightarrow> string list \<Rightarrow> string" where
  "joinWith sep [] = []"
| "joinWith sep [x] = x"
| "joinWith sep (x # y # ys) = x @ sep @ joinWith sep (y # ys)"

definition textOrEmpty :: "string option \<Rightarrow> string" where
  \<comment> \<open>\<open>join\<close> prints \<open>undefined\<close> as the empty string\<close>
  "textOrEmpty t = (case t of Some s \<Rightarrow> s | None \<Rightarrow> [])"

definition replyFor :: "string \<Rightarrow> remoteResult \<Rightarrow> chatMessage" where
  "replyFor datasetName r =
     (case r of
        Resolved (ObjectBody (Some ai) hasVectorResults) \<Rightarrow>
          if ai \<noteq> []
          then \<lparr>content = ai, isUser = False,
                sources = (if hasVectorResults then [datasetName] else [])\<rparr>
          else \<lparr>content = ''No relevant results found.'', isUser = False, sources = [datasetName]\<rparr>
      | Resolved (ObjectBody None hasVectorResults) \<Rightarrow>
          \<lparr>content = ''No relevant results found.'', isUser = False, sources = [datasetName]\<rparr>
      | Resolved (ArrayBody results) \<Rightarrow>
          (let srcs = take 3 (map textOrEmpty results)
           in \<lparr>content = (if length srcs > 0
                           then ''Top results:'' @ [CHR 0x0A] @ joinWith [CHR 0x0A, CHR 0x0A] srcs
                           else ''No relevant results found.''),
               isUser = False, sources = [datasetName]\<rparr>)
      | Rejected e \<Rightarrow>
          \<lparr>content = ''Error connecting to backend. Please try again or make sure the dataset is loaded.'',
           isUser = False, sources = []\<rparr>)"

definition handleSendMessage :: "string \<Rightarrow> remoteResult \<Rightarrow> chatState \<Rightarrow> chatState" where
  "handleSendMessage datasetName r st =
     (if trim (inputValue st) = [] then st
      else
        let userMessage = \<lparr>content = inputValue st, isUser = True, sources = []\<rparr>;
            st1 = st\<lparr>messages := messages st @ [userMessage], inputValue := [], isTyping := True\<rparr>;
            st2 = st1\<lparr>messages := messages st1 @ [replyFor datasetName r]\<rparr>
        in st2\<lparr>isTyping := False\<rparr>)"

section \<open>Sample inputs\<close>

text \<open>
  Inputs at which the theorems below are instantiated. \<open>fixedDraws\<close> is a sequence of
  results of \<open>Math.random()\<close> in which every draw is one half.
\<close>

definition fixedDraws :: "nat \<Rightarrow> real" where
  "fixedDraws i = 1 / 2"



text \<open>One record whose only field holds a text that is not a number.\<close>

definition oneTextRow :: "jsval jsobj list" where
  "oneTextRow = [[(''a'', JStr ''x'')]]"

text \<open>
  The record of a CSV file with the header line \<open>,x\<close> and the row \<open>,5\<close>: the first field has
  the empty name and the empty string as its value.
\<close>

definition emptyNameRows :: "jsval jsobj list" where
  "emptyNameRows = [[([], JStr []), (''x'', JStr ''5'')]]"

text \<open>Two records whose first field \<open>note\<close> is null or empty and whose second is a number.\<close>

definition nullFirstRows :: "jsval jsobj list" where
  "nullFirstRows =
     [[(''note'', JNull), (''n'', JNum 7)],
      [(''note'', JStr []), (''n'', JNum 9)]]"

text \<open>
  Seven records with the field \<open>c\<close>: four times the text \<open>x\<close>, twice null and once the
  empty string.
\<close>

definition missingRows :: "jsval jsobj list" where
  "missingRows =
     [[(''c'', JStr ''x'')], [(''c'', JNull)], [(''c'', JStr ''x'')], [(''c'', JStr [])],
      [(''c'', JStr ''x'')], [(''c'', JNull)], [(''c'', JStr ''x'')]]"


section \<open>Properties of the similarity score\<close>

lemma sumSquares_from:
  "foldl (\<lambda>s ai. jsAdd s (Fin (ai * ai))) (Fin r) a = Fin (r + sum_list (map (\<lambda>x. x * x) a))"
  by (induction a arbitrary: r) (simp_all add: add.assoc)

lemma sumSquares_Fin: "sumSquares a = Fin (sum_list (map (\<lambda>x. x * x) a))"
  by (simp add: sumSquares_def sumSquares_from)

lemma sum_list_squares_nonneg: "0 \<le> sum_list (map (\<lambda>x::real. x * x) a)"
  by (induction a) simp_all

lemma vecNorm_Fin: "vecNorm a = Fin (sqrt (sum_list (map (\<lambda>x. x * x) a)))"
  using sum_list_squares_nonneg [of a] by (simp add: vecNorm_def sumSquares_Fin)






section \<open>Properties of the summary\<close>














section \<open>Properties of the trend series\<close>

lemma numericField_None:
  assumes "\<forall>f\<in>set fs. \<forall>v\<in>set (column data f). \<not> isNumeric v"
  shows "numericField data fs = None"
  using assms by (auto simp: numericField_def find_None_iff list_ex_iff)

text \<open>
  C6, as the code has it. For a non-empty record list in which no value of any field of the
  first record parses as a number, and draws of \<open>Math.random()\<close> in \<open>[0, 1)\<close>: the labels
  are \<open>Data Point 1\<close> up to \<open>Data Point m\<close> for \<open>m\<close> the smaller of 10 and the number of
  records, and there are exactly 10 values, each in \<open>[0, 100)\<close>.
\<close>

theorem trend_fallback_series:
  assumes "data \<noteq> []"
    and "\<forall>f\<in>set (objectKeys (hd data)). \<forall>v\<in>set (column data f). \<not> isNumeric v"
    and "\<forall>i. 0 \<le> rand i \<and> rand i < 1"
  shows "labels (trends (analyzeFrontendData rand data)) =
           map (\<lambda>i. ''Data Point '' @ showNat (i + 1)) [0..<min 10 (length data)]
         \<and> length (vals (trends (analyzeFrontendData rand data))) = 10
         \<and> (\<forall>v\<in>set (vals (trends (analyzeFrontendData rand data))).
               \<exists>r. v = Fin r \<and> 0 \<le> r \<and> r < 100)"
proof -
  have nf: "numericField data (objectKeys (hd data)) = None"
    using assms(2) by (rule numericField_None)
  have t: "trends (analyzeFrontendData rand data) =
             \<lparr>labels = trendLabels data, vals = map (\<lambda>i. Fin (rand i * 100)) [0..<10]\<rparr>"
    using assms(1) by (simp add: analyzeFrontendData_def Let_def trendValues_def nf)
  have l: "trendLabels data = map (\<lambda>i. ''Data Point '' @ showNat (i + 1)) [0..<min 10 (length data)]"
    by (simp add: trendLabels_def min.commute)
  have r: "0 \<le> rand i * 100 \<and> rand i * 100 < 100" for i
    using assms(3) [rule_format, of i] by simp
  show ?thesis
    unfolding t using l r by (auto simp del: showNat.simps)
qed

lemma oneTextRow_not_numeric:
  "\<forall>f\<in>set (objectKeys (hd oneTextRow)). \<forall>v\<in>set (column oneTextRow f). \<not> isNumeric v"
  by code_simp

theorem trend_fallback_series_witness:
  "oneTextRow \<noteq> [] \<and> labels (trends (analyzeFrontendData fixedDraws oneTextRow)) = [''Data Point 1'']
   \<and> length (vals (trends (analyzeFrontendData fixedDraws oneTextRow))) = 10"
proof -
  have 1: "oneTextRow \<noteq> []" by (simp add: oneTextRow_def)
  have 3: "\<forall>i. 0 \<le> fixedDraws i \<and> fixedDraws i < 1" by (simp add: fixedDraws_def)
  have 4: "length oneTextRow = 1" by (simp add: oneTextRow_def)
  have 5: "showNat 1 = ''1''" by code_simp
  show ?thesis
    using 1 trend_fallback_series [OF 1 oneTextRow_not_numeric 3] 4 5
    by (simp del: showNat.simps)
qed

text \<open>
  The claim as stated asks for ten labels. On one record whose only value is the text
  \<open>x\<close> no value parses as a number and the series has one label.
\<close>

theorem trend_fallback_counterexample:
  "oneTextRow \<noteq> [] \<and> \<not> list_ex (\<lambda>f. list_ex isNumeric (column oneTextRow f)) (objectKeys (hd oneTextRow))
   \<and> length (labels (trends (analyzeFrontendData fixedDraws oneTextRow))) = 1"
  by code_simp

lemma isNumeric_missing: "isNumeric JNull" "isNumeric (JStr [])"
  by (simp_all add: isNumeric_def stringToNumber_def trim_def)

lemma orZero_missing: "orZero (toNumber JNull) = Fin 0" "orZero (toNumber (JStr [])) = Fin 0"
  by (simp_all add: orZero_def stringToNumber_def trim_def)

lemma trend_field_null_coercion:
  assumes "data \<noteq> []" and "objectKeys (hd data) = f # fs" and "f \<noteq> []"
    and "\<forall>v\<in>set (column data f). v = JNull \<or> v = JStr []"
  shows "numericField data (objectKeys (hd data)) = Some f
         \<and> vals (trends (analyzeFrontendData rand data)) = replicate (min 10 (length data)) (Fin 0)"
proof -
  from assms(1) have "column data f \<noteq> []" by (simp add: column_def)
  then obtain v where v: "v \<in> set (column data f)" by (cases "column data f") auto
  with assms(4) have "isNumeric v" using isNumeric_missing by auto
  with v have "list_ex isNumeric (column data f)" by (auto simp: list_ex_iff)
  then have nf: "numericField data (objectKeys (hd data)) = Some f"
    by (simp add: numericField_def assms(2))
  have z: "orZero (toNumber (getProp r f)) = Fin 0" if "r \<in> set (take 10 data)" for r
  proof -
    from that have "r \<in> set data" by (rule in_set_takeD)
    then have "getProp r f \<in> set (column data f)" by (auto simp: column_def)
    with assms(4) show ?thesis using orZero_missing by auto
  qed
  have "map (\<lambda>row. orZero (toNumber (getProp row f))) (take 10 data) =
          map (\<lambda>row. Fin 0) (take 10 data)"
    using z by (simp cong: map_cong)
  also have "\<dots> = replicate (length (take 10 data)) (Fin 0)"
    by (rule map_replicate_const)
  finally have "map (\<lambda>row. orZero (toNumber (getProp row f))) (take 10 data) =
                  replicate (min 10 (length data)) (Fin 0)"
    by (simp add: min.commute)
  with nf assms(1,3) show ?thesis
    by (simp add: analyzeFrontendData_def Let_def trendValues_def)
qed

lemma trend_field_null_coercion_example:
  "numericField nullFirstRows (objectKeys (hd nullFirstRows)) = Some ''note''
   \<and> vals (trends (analyzeFrontendData rand nullFirstRows)) = [Fin 0, Fin 0]"
  by code_simp

text \<open>
  C9 at a first field with the empty name. A null or empty value does pass the number test,
  and by \<open>trend_field_null_coercion\<close> a first field with a non-empty name that holds only
  such values is selected and gives the value 0 for every record. When the name of that
  field is empty, \<open>find\<close> returns it all the same, but the test \<open>numericField ? .. : ..\<close>
  takes the empty name for no field, and the values are the random fallback.
\<close>

theorem trend_field_empty_name:
  "numericField emptyNameRows (objectKeys (hd emptyNameRows)) = Some []
   \<and> vals (trends (analyzeFrontendData rand emptyNameRows)) = map (\<lambda>i. Fin (rand i * 100)) [0..<10]"
  by code_simp

section \<open>Properties of the chat query handler\<close>

text \<open>
  C2 at a rejected call. For the query \<open>dog\<close> and any failure of the remote call, the
  handler appends the user's message and then an error message; no local ranking takes
  place: the handler reads neither the vocabulary nor the vectors of the component.
\<close>

theorem query_failure_reply:
  "messages (handleSendMessage ''sales'' (Rejected e) \<lparr>messages = [], inputValue = ''dog'', isTyping = False\<rparr>) =
     [\<lparr>content = ''dog'', isUser = True, sources = []\<rparr>,
      \<lparr>content = ''Error connecting to backend. Please try again or make sure the dataset is loaded.'',
       isUser = False, sources = []\<rparr>]"
  by (simp add: handleSendMessage_def replyFor_def trim_def isWhiteSpace_def Let_def)

section \<open>Properties of the sort\<close>

lemma jsSort_Cons: "jsSort lt (x # xs) = jsInsert lt x (jsSort lt xs)"
  by (simp add: jsSort_def)

lemma jsSort_Nil: "jsSort lt [] = []"
  by (simp add: jsSort_def)


lemma length_jsInsert: "length (jsInsert lt x ys) = Suc (length ys)"
  by (induction ys) auto



lemma length_jsSort: "length (jsSort lt xs) = length xs"
  by (induction xs) (simp_all add: jsSort_Nil jsSort_Cons length_jsInsert)








section \<open>Properties of the ranker\<close>

lemma length_scoredRows: "length (scoredRows q rows vecs vocab) = length vecs"
  by (simp add: scoredRows_def Let_def)

lemma length_ranking: "length (jsSort byScoreDesc (scoredRows q rows vecs vocab)) = length vecs"
  by (simp add: length_jsSort length_scoredRows)

lemma slice0_nonneg: "0 \<le> e \<Longrightarrow> slice0 xs e = take (nat e) xs"
  by (simp add: slice0_def Let_def min_def)

lemma slice0_neg: "e < 0 \<Longrightarrow> slice0 xs e = take (length xs - nat (- e)) xs"
proof -
  assume e: "e < 0"
  have "nat (max (int (length xs) + e) 0) = length xs - nat (- e)"
    using e by (simp add: max_def) arith
  then show ?thesis using e by (simp add: slice0_def Let_def)
qed

text \<open>
  C4, as the code has it. A call with \<open>topN = 0\<close> returns the empty list. A call with a
  negative \<open>topN = - k\<close> returns the ranking of all vectors without its last \<open>k\<close> entries,
  so \<open>length vectors - k\<close> entries (none when \<open>k\<close> is at least the number of vectors).
  No exception is raised: the functions are total.
\<close>

theorem nonpositive_topN:
  assumes "topN \<le> 0"
  shows "(topN = 0 \<longrightarrow> vectorSearch q rows vecs vocab topN = [])
       \<and> (topN < 0 \<longrightarrow>
            vectorSearch q rows vecs vocab topN =
              take (length vecs - nat (- topN)) (jsSort byScoreDesc (scoredRows q rows vecs vocab))
            \<and> length (vectorSearch q rows vecs vocab topN) = length vecs - nat (- topN))"
  using assms
  by (auto simp: vectorSearch_def slice0_neg length_ranking slice0_nonneg)

theorem nonpositive_topN_witness:
  "(- 2 :: int) \<le> 0
   \<and> length (vectorSearch ''dog'' [''r1'', ''r2'', ''r3''] [[1, 1, 0], [0, 1, 1], [1, 0, 0]]
        [''cat'', ''dog'', ''bird''] (- 2)) = 1
   \<and> vectorSearch ''dog'' [''r1'', ''r2'', ''r3''] [[1, 1, 0], [0, 1, 1], [1, 0, 0]]
        [''cat'', ''dog'', ''bird''] 0 = []"
  using nonpositive_topN [of "- 2" "''dog''" "[''r1'', ''r2'', ''r3'']" "[[1, 1, 0], [0, 1, 1], [1, 0, 0]]"
      "[''cat'', ''dog'', ''bird'']"]
    nonpositive_topN [of 0 "''dog''" "[''r1'', ''r2'', ''r3'']" "[[1, 1, 0], [0, 1, 1], [1, 0, 0]]"
      "[''cat'', ''dog'', ''bird'']"]
  by (simp add: length_ranking)

text \<open>
  The claim as stated asks for an empty result at every non-positive \<open>topN\<close>. With two
  vectors and \<open>topN = - 1\<close> the result has one entry.
\<close>

theorem nonpositive_topN_counterexample:
  "length (vectorSearch ''dog'' [''r1'', ''r2''] [[1, 1, 0], [0, 1, 1]] [''cat'', ''dog'', ''bird''] (- 1)) = 1"
  by (simp add: vectorSearch_def slice0_neg length_ranking)




lemma short_vector_score: "cosineSimilarity [1, 1] [1] = NaN"
  by (simp add: cosineSimilarity_def cosineDivisor_def Let_def vecNorm_Fin)





text \<open>
  The query \<open>dog\<close> over the documents \<open>cat dog\<close> and \<open>dog bird\<close>: both score
  \<open>1 / sqrt 2\<close>, and the first document stays first.
\<close>

lemma vectorize_dog: "vectorize ''dog'' [''cat'', ''dog'', ''bird''] = [0, 1, 0]"
  by code_simp

lemma ranking_example:
  "map row (vectorSearch ''dog'' [''doc1'', ''doc2''] [[1, 1, 0], [0, 1, 1]] [''cat'', ''dog'', ''bird''] 1)
     = [Some ''doc1'']"
  by (simp add: vectorSearch_def scoredRows_def vectorize_dog slice0_def jsSort_def nthOpt_def
        byScoreDesc_def jsSub_def cosineSimilarity_def cosineDivisor_def vecNorm_Fin Let_def)

lemma ranking_example_scores:
  "map score (vectorSearch ''dog'' [''doc1'', ''doc2''] [[1, 1, 0], [0, 1, 1]] [''cat'', ''dog'', ''bird''] 2)
     = [Fin (1 / sqrt 2), Fin (1 / sqrt 2)]"
  by (simp add: vectorSearch_def scoredRows_def vectorize_dog slice0_def jsSort_def nthOpt_def
        byScoreDesc_def jsSub_def cosineSimilarity_def cosineDivisor_def vecNorm_Fin Let_def)

section \<open>Properties of the distribution\<close>











lemma missingRows_distribution:
  "distribution (analyzeFrontendData rand missingRows) = \<lparr>labels = [''x'', ''null'', []], vals = [4, 2, 1]\<rparr>"
  by code_simp






















end
